theory Spec2Isabelle
  imports Main "HOL-Library.Word"
begin

section \<open>The Vector3 example script of the kRPC C++ client\<close>

text \<open>
  The program under verification is \<^verbatim>\<open>doc/src/scripts/Vector3.cpp\<close>:
  \<^verbatim>\<open>
  int main() {
    krpc::Client conn = krpc::connect();
    SpaceCenter sc(&conn);
    std::tuple<double,double,double> v = sc.active_vessel().flight().prograde();
    std::cout << std::get<0>(v) << " "
              << std::get<1>(v) << " "
              << std::get<2>(v) << std::endl;
  }
  \<close>
  \<open>main\<close> is modelled as a function of the behaviour of the service it talks to. Every
  effect of the program is an entry of an event log: opening the connection, invoking a
  procedure of the service through a stub of the client library, inserting text into
  \<open>std::cout\<close>, flushing \<open>std::cout\<close>.
\<close>

subsection \<open>Data\<close>

text \<open>
  A \<open>double\<close> is its IEEE 754 binary64 bit pattern. The handles the client library hands
  out (\<open>krpc::Client\<close>, \<open>Vessel\<close>, \<open>Flight\<close>) are opaque identifiers. An exception is
  represented by its \<open>what()\<close> text.
\<close>

type_synonym double = "64 word"
type_synonym vector3 = "double \<times> double \<times> double"

type_synonym client = nat
type_synonym vessel = nat
type_synonym flight_obj = nat
type_synonym exn = string

datatype space_center = SpaceCenter client

text \<open>
  A call into the client library either returns a value, throws, or never comes back
  (the calls are blocking network operations).
\<close>

datatype 'a reply = Returns 'a | Throws exn | Blocks

text \<open>
  The client library and the service behind it are not part of the program: they are a
  parameter of the model, one field per library function that \<open>main\<close> calls.
\<close>

record service =
  connect :: "client reply"
  active_vessel :: "space_center \<Rightarrow> vessel reply"
  flight :: "vessel \<Rightarrow> flight_obj reply"
  prograde :: "flight_obj \<Rightarrow> vector3 reply"

datatype proc = ActiveVessel | Flight | Prograde

datatype event = Connect | Invoke proc | Put string | Flush

text \<open>
  How a run ends: \<open>main\<close> returns a status, or an exception leaves \<open>main\<close> uncaught
  (\<open>std::terminate\<close>), or the run is stuck for ever inside a library call.
\<close>

datatype outcome = Returned int | Terminated exn | Blocked

record run =
  events :: "event list"
  outcome :: outcome

subsection \<open>Sequencing of effects\<close>

type_synonym 'a io = "event list \<Rightarrow> event list \<times> 'a reply"

definition io_return :: "'a \<Rightarrow> 'a io" where
  "io_return x = (\<lambda>log. (log, Returns x))"

definition io_bind :: "'a io \<Rightarrow> ('a \<Rightarrow> 'b io) \<Rightarrow> 'b io" where
  "io_bind m k = (\<lambda>log.
     case m log of
       (log', Returns x) \<Rightarrow> k x log'
     | (log', Throws e) \<Rightarrow> (log', Throws e)
     | (log', Blocks) \<Rightarrow> (log', Blocks))"

text \<open>A library call: the attempt is logged, the library decides how it ends.\<close>

definition call :: "event \<Rightarrow> 'a reply \<Rightarrow> 'a io" where
  "call ev r = (\<lambda>log. (log @ [ev], r))"

text \<open>\<open>std::cout << s\<close> for text \<open>s\<close>, and \<open>std::cout << std::endl\<close> (a newline, then a flush).\<close>

definition cout_put :: "string \<Rightarrow> unit io" where
  "cout_put s = (\<lambda>log. (log @ [Put s], Returns ()))"

definition cout_endl :: "unit io" where
  "cout_endl = (\<lambda>log. (log @ [Put [CHR 0x0A], Flush], Returns ()))"

text \<open>\<open>std::get<0>\<close>, \<open>std::get<1>\<close>, \<open>std::get<2>\<close> on a three-component tuple.\<close>

definition get0 :: "vector3 \<Rightarrow> double" where "get0 v = fst v"
definition get1 :: "vector3 \<Rightarrow> double" where "get1 v = fst (snd v)"
definition get2 :: "vector3 \<Rightarrow> double" where "get2 v = snd (snd v)"

subsection \<open>The program\<close>

text \<open>
  The body of \<open>main\<close>, statement by statement. \<open>put\<close> is the text that \<open>std::cout <<\<close>
  produces for a \<open>double\<close>. Control that reaches the end of \<open>main\<close> returns 0.
  The destructors that run when \<open>main\<close> returns belong to the client library and are
  no events of the model.
\<close>

definition main_body :: "(double \<Rightarrow> string) \<Rightarrow> service \<Rightarrow> int io" where
  "main_body put svc =
     io_bind (call Connect (connect svc)) (\<lambda>conn.
     let sc = SpaceCenter conn in
     io_bind (call (Invoke ActiveVessel) (active_vessel svc sc)) (\<lambda>vs.
     io_bind (call (Invoke Flight) (flight svc vs)) (\<lambda>fl.
     io_bind (call (Invoke Prograde) (prograde svc fl)) (\<lambda>v.
     io_bind (cout_put (put (get0 v))) (\<lambda>_.
     io_bind (cout_put '' '') (\<lambda>_.
     io_bind (cout_put (put (get1 v))) (\<lambda>_.
     io_bind (cout_put '' '') (\<lambda>_.
     io_bind (cout_put (put (get2 v))) (\<lambda>_.
     io_bind cout_endl (\<lambda>_.
     io_return 0))))))))))"

definition main_prog :: "(double \<Rightarrow> string) \<Rightarrow> service \<Rightarrow> run" where
  "main_prog put svc =
     (case main_body put svc [] of
        (log, Returns rc) \<Rightarrow> \<lparr>events = log, outcome = Returned rc\<rparr>
      | (log, Throws e) \<Rightarrow> \<lparr>events = log, outcome = Terminated e\<rparr>
      | (log, Blocks) \<Rightarrow> \<lparr>events = log, outcome = Blocked\<rparr>)"

text \<open>What a run has written to standard output: the inserted texts, in order.\<close>

fun put_text :: "event \<Rightarrow> string" where
  "put_text (Put s) = s"
| "put_text _ = []"

definition stdout_of :: "run \<Rightarrow> string" where
  "stdout_of r = concat (map put_text (events r))"

text \<open>How often an event occurs in a run.\<close>

definition occurrences :: "event \<Rightarrow> run \<Rightarrow> nat" where
  "occurrences ev r = length (filter (\<lambda>x. x = ev) (events r))"

fun is_invoke :: "event \<Rightarrow> bool" where
  "is_invoke (Invoke _) = True"
| "is_invoke _ = False"

definition requests :: "run \<Rightarrow> event list" where
  "requests r = filter is_invoke (events r)"

text \<open>
  The three kinds of effect, numbered in the order of the statements of \<open>main\<close>: opening
  the connection, calls of the service, output.
\<close>

fun phase :: "event \<Rightarrow> nat" where
  "phase Connect = 0"
| "phase (Invoke _) = 1"
| "phase (Put _) = 2"
| "phase Flush = 2"

subsection \<open>The default formatting of a double\<close>

text \<open>
  \<open>std::cout\<close> is used in its initial state (classic locale, \<open>floatfield\<close> unset,
  precision 6, no width), where \<open>operator<<(double)\<close> produces what \<open>printf\<close> produces
  for \<open>%.6g\<close>: the value rounded to six significant decimal digits (to nearest, ties to
  even, on the exact binary value), in fixed notation when the decimal exponent \<open>X\<close> of
  the rounded value satisfies \<open>-4 \<le> X < 6\<close> and in scientific notation otherwise,
  trailing zeros of the fraction removed. Infinities and NaNs are printed as glibc does.
  The value of a finite double is kept exact, as a numerator and a denominator.
\<close>

text \<open>The three fields of a binary64: sign (bit 63), biased exponent (bits 62 to 52),
  fraction (bits 51 to 0).\<close>

definition sign_bit :: "double \<Rightarrow> bool" where
  "sign_bit w = (uint w div 2 ^ 63 = 1)"

definition biased_exp :: "double \<Rightarrow> int" where
  "biased_exp w = (uint w div 2 ^ 52) mod 2 ^ 11"

definition fraction :: "double \<Rightarrow> int" where
  "fraction w = uint w mod 2 ^ 52"

text \<open>The absolute value of a finite double, as the pair \<open>(n, d)\<close> standing for \<open>n / d\<close>:
  \<open>fraction / 2^1074\<close> for a subnormal, \<open>(2^52 + fraction) * 2^(exponent - 1075)\<close>
  otherwise.\<close>

definition magnitude :: "double \<Rightarrow> int \<times> int" where
  "magnitude w =
     (let e = biased_exp w; f = fraction w in
      if e = 0 then (f, 2 ^ 1074)
      else if e < 1075 then (2 ^ 52 + f, 2 ^ nat (1075 - e))
      else ((2 ^ 52 + f) * 2 ^ nat (e - 1075), 1))"

text \<open>The decimal exponent of a positive \<open>n / d\<close>, the \<open>k\<close> with \<open>10^k \<le> n / d < 10^(k + 1)\<close>:
  counted up from 0 when \<open>1 \<le> n / d\<close>, down from \<open>-1\<close> otherwise. \<open>p\<close> is the power of
  ten reached so far.\<close>

function exp10_up :: "int \<Rightarrow> int \<Rightarrow> int \<times> int \<Rightarrow> int" where
  "exp10_up k p (n, d) =
     (if 0 < p \<and> 0 < d \<and> 10 * p * d \<le> n then exp10_up (k + 1) (10 * p) (n, d) else k)"
  by pat_completeness auto
termination
proof (relation "measure (\<lambda>(k, p, n, d). nat (n - p * d))", goal_cases)
  case 1
  show ?case by simp
next
  case (2 k p n d)
  then have pos: "0 < p * d" by simp
  from 2 have "10 * (p * d) \<le> n" by (simp add: ac_simps)
  with pos show ?case by (simp add: ac_simps)
qed

function exp10_down :: "int \<Rightarrow> int \<Rightarrow> int \<times> int \<Rightarrow> int" where
  "exp10_down j p (n, d) =
     (if 0 < p \<and> 0 < n \<and> p * n < d then exp10_down (j + 1) (10 * p) (n, d) else - j)"
  by pat_completeness auto
termination
proof (relation "measure (\<lambda>(j, p, n, d). nat (d - p * n))", goal_cases)
  case 1
  show ?case by simp
next
  case (2 j p n d)
  then have pos: "0 < p * n" by simp
  from 2 have "p * n < d" by simp
  with pos show ?case by (simp add: ac_simps)
qed

definition exp10 :: "int \<times> int \<Rightarrow> int" where
  "exp10 q = (if snd q \<le> fst q then exp10_up 0 1 q else exp10_down 1 10 q)"

text \<open>\<open>a / b\<close> rounded to the nearest integer, a tie to the even one; \<open>sig6 q x\<close> is
  \<open>q / 10^(x - 5)\<close> rounded so: the six significant digits of \<open>q\<close> when \<open>x\<close> is its decimal
  exponent (or \<open>1000000\<close> when rounding carries into a seventh digit).\<close>

definition round_half_even :: "int \<Rightarrow> int \<Rightarrow> int" where
  "round_half_even a b =
     (let q = a div b; r = a mod b in
      if 2 * r < b then q else if b < 2 * r then q + 1
      else if even q then q else q + 1)"

definition sig6 :: "int \<times> int \<Rightarrow> int \<Rightarrow> int" where
  "sig6 q x =
     (if x \<le> 5 then round_half_even (fst q * 10 ^ nat (5 - x)) (snd q)
      else round_half_even (fst q) (snd q * 10 ^ nat (x - 5)))"

text \<open>Decimal digits of a natural number, and removal of the trailing zeros of a
  fraction.\<close>

definition digit :: "int \<Rightarrow> char" where
  "digit d = ''0123456789'' ! nat d"

function digits :: "int \<Rightarrow> string" where
  "digits n = (if n < 10 then [digit n] else digits (n div 10) @ [digit (n mod 10)])"
  by pat_completeness auto
termination
  by (relation "measure nat") auto

definition strip_zeros :: "string \<Rightarrow> string" where
  "strip_zeros s = rev (dropWhile (\<lambda>c. c = CHR ''0'') (rev s))"

text \<open>The two notations, from the six digits \<open>ds\<close> and the decimal exponent \<open>x\<close>: fixed
  (digits around a decimal point, which is dropped when no fraction remains) and
  scientific (one digit, the fraction, \<open>e\<close>, a sign and at least two exponent digits).\<close>

definition style_f :: "string \<Rightarrow> int \<Rightarrow> string" where
  "style_f ds x =
     (let ip = (if 0 \<le> x then take (nat x + 1) ds else ''0'');
          fp = strip_zeros (if 0 \<le> x then drop (nat x + 1) ds
                            else replicate (nat (- x - 1)) CHR ''0'' @ ds)
      in if fp = [] then ip else ip @ ''.'' @ fp)"

definition style_e :: "string \<Rightarrow> int \<Rightarrow> string" where
  "style_e ds x =
     (let fp = strip_zeros (drop 1 ds);
          m = (if fp = [] then take 1 ds else take 1 ds @ ''.'' @ fp);
          ex = digits \<bar>x\<bar>
      in m @ ''e'' @ (if x < 0 then ''-'' else ''+'') @
         (if length ex < 2 then ''0'' @ ex else ex))"

definition put_finite :: "int \<times> int \<Rightarrow> string" where
  "put_finite q =
     (let x0 = exp10 q; n = sig6 q x0;
          x = (if n = 1000000 then x0 + 1 else x0);
          ds = digits (if n = 1000000 then 100000 else n)
      in if - 4 \<le> x \<and> x < 6 then style_f ds x else style_e ds x)"

text \<open>\<open>std::cout << w\<close>. Zero has decimal exponent 0 and prints as \<open>0\<close> (\<open>-0\<close> with the
  sign bit).\<close>

definition put_double :: "double \<Rightarrow> string" where
  "put_double w =
     (if sign_bit w then ''-'' else []) @
     (if biased_exp w = 2047 then (if fraction w = 0 then ''inf'' else ''nan'')
      else if biased_exp w = 0 \<and> fraction w = 0 then ''0''
      else put_finite (magnitude w))"

definition finite_double :: "double \<Rightarrow> bool" where
  "finite_double w = (biased_exp w \<noteq> 2047)"

subsection \<open>Services used to run the program on concrete inputs\<close>

text \<open>A service where every call returns, and the prograde vector is \<open>v\<close>.\<close>

definition steady_service :: "vector3 \<Rightarrow> service" where
  "steady_service v =
     \<lparr>connect = Returns 1,
      active_vessel = (\<lambda>_. Returns 2),
      flight = (\<lambda>_. Returns 3),
      prograde = (\<lambda>_. Returns v)\<rparr>"

text \<open>A service that answers only the handles it has handed out itself.\<close>

definition strict_service :: "vector3 \<Rightarrow> service" where
  "strict_service v =
     \<lparr>connect = Returns 1,
      active_vessel = (\<lambda>sc. if sc = SpaceCenter 1 then Returns 2 else Throws ''no client''),
      flight = (\<lambda>vs. if vs = 2 then Returns 3 else Throws ''no vessel''),
      prograde = (\<lambda>fl. if fl = 3 then Returns v else Blocks)\<rparr>"

text \<open>A service where the call logged as \<open>at\<close> throws \<open>e\<close>.\<close>

definition broken_service :: "event \<Rightarrow> exn \<Rightarrow> service" where
  "broken_service at e =
     \<lparr>connect = (if at = Connect then Throws e else Returns 1),
      active_vessel = (\<lambda>_. if at = Invoke ActiveVessel then Throws e else Returns 2),
      flight = (\<lambda>_. if at = Invoke Flight then Throws e else Returns 3),
      prograde = (\<lambda>_. if at = Invoke Prograde then Throws e else Returns (0, 0, 0))\<rparr>"

section \<open>The runs of the program\<close>

lemmas main_defs =
  main_prog_def main_body_def io_bind_def io_return_def call_def
  cout_put_def cout_endl_def get0_def get1_def get2_def

text \<open>A call that does not return stops the program where it is.\<close>

lemma run_connect_throws:
  "connect svc = Throws e \<Longrightarrow>
   main_prog put svc = \<lparr>events = [Connect], outcome = Terminated e\<rparr>"
  by (simp add: main_defs)

lemma run_connect_blocks:
  "connect svc = Blocks \<Longrightarrow>
   main_prog put svc = \<lparr>events = [Connect], outcome = Blocked\<rparr>"
  by (simp add: main_defs)

lemma run_vessel_throws:
  "connect svc = Returns c \<Longrightarrow> active_vessel svc (SpaceCenter c) = Throws e \<Longrightarrow>
   main_prog put svc =
     \<lparr>events = [Connect, Invoke ActiveVessel], outcome = Terminated e\<rparr>"
  by (simp add: main_defs)

lemma run_vessel_blocks:
  "connect svc = Returns c \<Longrightarrow> active_vessel svc (SpaceCenter c) = Blocks \<Longrightarrow>
   main_prog put svc =
     \<lparr>events = [Connect, Invoke ActiveVessel], outcome = Blocked\<rparr>"
  by (simp add: main_defs)

lemma run_flight_throws:
  "connect svc = Returns c \<Longrightarrow> active_vessel svc (SpaceCenter c) = Returns vs \<Longrightarrow>
   flight svc vs = Throws e \<Longrightarrow>
   main_prog put svc =
     \<lparr>events = [Connect, Invoke ActiveVessel, Invoke Flight], outcome = Terminated e\<rparr>"
  by (simp add: main_defs)

lemma run_flight_blocks:
  "connect svc = Returns c \<Longrightarrow> active_vessel svc (SpaceCenter c) = Returns vs \<Longrightarrow>
   flight svc vs = Blocks \<Longrightarrow>
   main_prog put svc =
     \<lparr>events = [Connect, Invoke ActiveVessel, Invoke Flight], outcome = Blocked\<rparr>"
  by (simp add: main_defs)

lemma run_prograde_throws:
  "connect svc = Returns c \<Longrightarrow> active_vessel svc (SpaceCenter c) = Returns vs \<Longrightarrow>
   flight svc vs = Returns fl \<Longrightarrow> prograde svc fl = Throws e \<Longrightarrow>
   main_prog put svc =
     \<lparr>events = [Connect, Invoke ActiveVessel, Invoke Flight, Invoke Prograde],
      outcome = Terminated e\<rparr>"
  by (simp add: main_defs)

lemma run_prograde_blocks:
  "connect svc = Returns c \<Longrightarrow> active_vessel svc (SpaceCenter c) = Returns vs \<Longrightarrow>
   flight svc vs = Returns fl \<Longrightarrow> prograde svc fl = Blocks \<Longrightarrow>
   main_prog put svc =
     \<lparr>events = [Connect, Invoke ActiveVessel, Invoke Flight, Invoke Prograde],
      outcome = Blocked\<rparr>"
  by (simp add: main_defs)

text \<open>When all four calls return, the program prints and returns.\<close>

lemma run_success:
  "connect svc = Returns c \<Longrightarrow> active_vessel svc (SpaceCenter c) = Returns vs \<Longrightarrow>
   flight svc vs = Returns fl \<Longrightarrow> prograde svc fl = Returns (x, y, z) \<Longrightarrow>
   main_prog put svc =
     \<lparr>events = [Connect, Invoke ActiveVessel, Invoke Flight, Invoke Prograde,
                 Put (put x), Put '' '', Put (put y), Put '' '', Put (put z),
                 Put [CHR 0x0A], Flush],
      outcome = Returned 0\<rparr>"
  by (simp add: main_defs)

text \<open>These nine runs are all the runs there are.\<close>

lemma main_prog_cases
  [case_names connect_throws connect_blocks vessel_throws vessel_blocks
     flight_throws flight_blocks prograde_throws prograde_blocks success]:
  obtains
    e where "connect svc = Throws e"
      and "main_prog put svc = \<lparr>events = [Connect], outcome = Terminated e\<rparr>"
  | "connect svc = Blocks"
      and "main_prog put svc = \<lparr>events = [Connect], outcome = Blocked\<rparr>"
  | c e where "connect svc = Returns c"
      and "active_vessel svc (SpaceCenter c) = Throws e"
      and "main_prog put svc =
             \<lparr>events = [Connect, Invoke ActiveVessel], outcome = Terminated e\<rparr>"
  | c where "connect svc = Returns c"
      and "active_vessel svc (SpaceCenter c) = Blocks"
      and "main_prog put svc =
             \<lparr>events = [Connect, Invoke ActiveVessel], outcome = Blocked\<rparr>"
  | c vs e where "connect svc = Returns c"
      and "active_vessel svc (SpaceCenter c) = Returns vs"
      and "flight svc vs = Throws e"
      and "main_prog put svc =
             \<lparr>events = [Connect, Invoke ActiveVessel, Invoke Flight],
              outcome = Terminated e\<rparr>"
  | c vs where "connect svc = Returns c"
      and "active_vessel svc (SpaceCenter c) = Returns vs"
      and "flight svc vs = Blocks"
      and "main_prog put svc =
             \<lparr>events = [Connect, Invoke ActiveVessel, Invoke Flight], outcome = Blocked\<rparr>"
  | c vs fl e where "connect svc = Returns c"
      and "active_vessel svc (SpaceCenter c) = Returns vs"
      and "flight svc vs = Returns fl"
      and "prograde svc fl = Throws e"
      and "main_prog put svc =
             \<lparr>events = [Connect, Invoke ActiveVessel, Invoke Flight, Invoke Prograde],
              outcome = Terminated e\<rparr>"
  | c vs fl where "connect svc = Returns c"
      and "active_vessel svc (SpaceCenter c) = Returns vs"
      and "flight svc vs = Returns fl"
      and "prograde svc fl = Blocks"
      and "main_prog put svc =
             \<lparr>events = [Connect, Invoke ActiveVessel, Invoke Flight, Invoke Prograde],
              outcome = Blocked\<rparr>"
  | c vs fl x y z where "connect svc = Returns c"
      and "active_vessel svc (SpaceCenter c) = Returns vs"
      and "flight svc vs = Returns fl"
      and "prograde svc fl = Returns (x, y, z)"
      and "main_prog put svc =
             \<lparr>events = [Connect, Invoke ActiveVessel, Invoke Flight, Invoke Prograde,
                         Put (put x), Put '' '', Put (put y), Put '' '', Put (put z),
                         Put [CHR 0x0A], Flush],
              outcome = Returned 0\<rparr>"
proof (cases "connect svc")
  case (Throws e)
  then show ?thesis using run_connect_throws that(1) by blast
next
  case Blocks
  then show ?thesis using run_connect_blocks that(2) by blast
next
  case c: (Returns c)
  show ?thesis
  proof (cases "active_vessel svc (SpaceCenter c)")
    case (Throws e)
    with c show ?thesis using run_vessel_throws that(3) by blast
  next
    case Blocks
    with c show ?thesis using run_vessel_blocks that(4) by blast
  next
    case vs: (Returns vs)
    show ?thesis
    proof (cases "flight svc vs")
      case (Throws e)
      with c vs show ?thesis using run_flight_throws that(5) by blast
    next
      case Blocks
      with c vs show ?thesis using run_flight_blocks that(6) by blast
    next
      case fl: (Returns fl)
      show ?thesis
      proof (cases "prograde svc fl")
        case (Throws e)
        with c vs fl show ?thesis using run_prograde_throws that(7) by blast
      next
        case Blocks
        with c vs fl show ?thesis using run_prograde_blocks that(8) by blast
      next
        case (Returns v)
        obtain x y z where "v = (x, y, z)" by (cases v) auto
        with Returns c vs fl show ?thesis using run_success that(9) by blast
      qed
    qed
  qed
qed

text \<open>The formatting on the values used below.\<close>

lemma put_double_one: "put_double 0x3FF0000000000000 = ''1''"
  by code_simp

lemma put_double_one_ulp: "put_double 0x3FF0000000000001 = ''1''"
  by code_simp

lemma put_double_half: "put_double 0x3FE0000000000000 = ''0.5''"
  by code_simp

lemma put_double_minus_pi: "put_double 0xC00921FB54442D18 = ''-3.14159''"
  by code_simp

lemma put_double_zero: "put_double 0 = ''0''"
  by code_simp

section \<open>The claims\<close>

subsection \<open>What is printed\<close>

text \<open>
  Claim C1. In every run where the connection is made and the calls that lead to the
  prograde vector return, the vector being \<open>(a, b, c)\<close>, standard output receives exactly
  the text of \<open>a\<close>, a space, the text of \<open>b\<close>, a space, the text of \<open>c\<close> and a newline, in
  this order. The three components are the ones the service returned: the program hands
  them to the stream's inserter as they are, whatever the inserter \<open>put\<close> prints for a
  \<open>double\<close>.
\<close>

theorem prints_prograde_vector:
  assumes "connect svc = Returns conn"
    and "active_vessel svc (SpaceCenter conn) = Returns vs"
    and "flight svc vs = Returns fl"
    and "prograde svc fl = Returns (a, b, c)"
  shows "stdout_of (main_prog put svc) = put a @ '' '' @ put b @ '' '' @ put c @ [CHR 0x0A]"
  using run_success [OF assms, of put] by (simp add: stdout_of_def)

theorem prints_prograde_vector_witness:
  "stdout_of (main_prog put_double
     (steady_service (0x3FF0000000000000, 0x3FE0000000000000, 0xC00921FB54442D18))) =
   ''1 0.5 -3.14159'' @ [CHR 0x0A]"
  using prints_prograde_vector
    [of "steady_service (0x3FF0000000000000, 0x3FE0000000000000, 0xC00921FB54442D18)"
      1 2 3 "0x3FF0000000000000" "0x3FE0000000000000" "0xC00921FB54442D18" put_double]
  by (simp add: steady_service_def put_double_one put_double_half put_double_minus_pi)

subsection \<open>Connections and requests\<close>

text \<open>
  Claim C2, as stated: a successful run opens one connection and issues exactly one
  request over it. The run against a service where every call returns is successful and
  issues three requests, so the claim as stated fails.
\<close>

theorem single_request_counterexample:
  "outcome (main_prog put_double (steady_service (0x3FF0000000000000, 0, 0))) = Returned 0 \<and>
   length (requests (main_prog put_double (steady_service (0x3FF0000000000000, 0, 0)))) = 3"
  using run_success
    [of "steady_service (0x3FF0000000000000, 0, 0)" 1 2 3 "0x3FF0000000000000" 0 0 put_double]
  by (simp add: steady_service_def requests_def)

text \<open>
  Claim C2, amended. In every run in which \<open>main\<close> returns, the program opens exactly one
  connection and issues exactly three requests through it, in this order: the active
  vessel, its flight object, the prograde vector of that flight. Only the last of them
  fetches the vector, it is issued once, and the connection is used for no other request.
\<close>

theorem one_connection_three_requests:
  assumes "outcome (main_prog put svc) = Returned rc"
  shows "occurrences Connect (main_prog put svc) = 1 \<and>
         requests (main_prog put svc) = [Invoke ActiveVessel, Invoke Flight, Invoke Prograde]"
  using assms
  by (cases rule: main_prog_cases [of svc put]) (simp_all add: occurrences_def requests_def)

theorem one_connection_three_requests_witness:
  "outcome (main_prog put_double (steady_service (0, 0, 0))) = Returned 0 \<and>
   occurrences Connect (main_prog put_double (steady_service (0, 0, 0))) = 1 \<and>
   requests (main_prog put_double (steady_service (0, 0, 0))) =
     [Invoke ActiveVessel, Invoke Flight, Invoke Prograde]"
proof -
  have ret: "outcome (main_prog put_double (steady_service (0, 0, 0))) = Returned 0"
    using run_success [of "steady_service (0, 0, 0)" 1 2 3 0 0 0 put_double]
    by (simp add: steady_service_def)
  from one_connection_three_requests [OF ret] ret show ?thesis by simp
qed

subsection \<open>Failures\<close>

text \<open>
  Claim C3. When opening the connection throws, or one of the calls to the service
  throws, the exception leaves \<open>main\<close> uncaught and ends the process with it. The run
  stops at the call that failed: that call was attempted once and no call is made after
  it (no retry, no recovery), and nothing at all was inserted into standard output (no
  error message of the program, no vector).
\<close>

theorem failure_terminates_unhandled:
  "(connect svc = Throws e \<longrightarrow>
      main_prog put svc = \<lparr>events = [Connect], outcome = Terminated e\<rparr> \<and>
      stdout_of (main_prog put svc) = []) \<and>
   (connect svc = Returns conn \<and> active_vessel svc (SpaceCenter conn) = Throws e \<longrightarrow>
      main_prog put svc =
        \<lparr>events = [Connect, Invoke ActiveVessel], outcome = Terminated e\<rparr> \<and>
      stdout_of (main_prog put svc) = []) \<and>
   (connect svc = Returns conn \<and> active_vessel svc (SpaceCenter conn) = Returns vs \<and>
    flight svc vs = Throws e \<longrightarrow>
      main_prog put svc =
        \<lparr>events = [Connect, Invoke ActiveVessel, Invoke Flight], outcome = Terminated e\<rparr> \<and>
      stdout_of (main_prog put svc) = []) \<and>
   (connect svc = Returns conn \<and> active_vessel svc (SpaceCenter conn) = Returns vs \<and>
    flight svc vs = Returns fl \<and> prograde svc fl = Throws e \<longrightarrow>
      main_prog put svc =
        \<lparr>events = [Connect, Invoke ActiveVessel, Invoke Flight, Invoke Prograde],
         outcome = Terminated e\<rparr> \<and>
      stdout_of (main_prog put svc) = [])"
proof (intro conjI impI)
  assume "connect svc = Throws e"
  from run_connect_throws [OF this, of put]
  show "main_prog put svc = \<lparr>events = [Connect], outcome = Terminated e\<rparr>"
    and "stdout_of (main_prog put svc) = []"
    by (simp_all add: stdout_of_def)
next
  assume "connect svc = Returns conn \<and> active_vessel svc (SpaceCenter conn) = Throws e"
  then have r: "main_prog put svc =
      \<lparr>events = [Connect, Invoke ActiveVessel], outcome = Terminated e\<rparr>"
    using run_vessel_throws by blast
  then show "main_prog put svc =
      \<lparr>events = [Connect, Invoke ActiveVessel], outcome = Terminated e\<rparr>"
    and "stdout_of (main_prog put svc) = []"
    by (simp_all add: stdout_of_def)
next
  assume "connect svc = Returns conn \<and> active_vessel svc (SpaceCenter conn) = Returns vs \<and>
    flight svc vs = Throws e"
  then have r: "main_prog put svc =
      \<lparr>events = [Connect, Invoke ActiveVessel, Invoke Flight], outcome = Terminated e\<rparr>"
    using run_flight_throws by blast
  then show "main_prog put svc =
      \<lparr>events = [Connect, Invoke ActiveVessel, Invoke Flight], outcome = Terminated e\<rparr>"
    and "stdout_of (main_prog put svc) = []"
    by (simp_all add: stdout_of_def)
next
  assume "connect svc = Returns conn \<and> active_vessel svc (SpaceCenter conn) = Returns vs \<and>
    flight svc vs = Returns fl \<and> prograde svc fl = Throws e"
  then have r: "main_prog put svc =
      \<lparr>events = [Connect, Invoke ActiveVessel, Invoke Flight, Invoke Prograde],
       outcome = Terminated e\<rparr>"
    using run_prograde_throws by blast
  then show "main_prog put svc =
      \<lparr>events = [Connect, Invoke ActiveVessel, Invoke Flight, Invoke Prograde],
       outcome = Terminated e\<rparr>"
    and "stdout_of (main_prog put svc) = []"
    by (simp_all add: stdout_of_def)
qed

theorem failure_terminates_unhandled_witness:
  "main_prog put_double (broken_service Connect ''refused'') =
     \<lparr>events = [Connect], outcome = Terminated ''refused''\<rparr> \<and>
   stdout_of (main_prog put_double (broken_service Connect ''refused'')) = [] \<and>
   main_prog put_double (broken_service (Invoke ActiveVessel) ''no vessel'') =
     \<lparr>events = [Connect, Invoke ActiveVessel], outcome = Terminated ''no vessel''\<rparr> \<and>
   main_prog put_double (broken_service (Invoke Flight) ''rpc error'') =
     \<lparr>events = [Connect, Invoke ActiveVessel, Invoke Flight],
      outcome = Terminated ''rpc error''\<rparr> \<and>
   main_prog put_double (broken_service (Invoke Prograde) ''closed'') =
     \<lparr>events = [Connect, Invoke ActiveVessel, Invoke Flight, Invoke Prograde],
      outcome = Terminated ''closed''\<rparr> \<and>
   stdout_of (main_prog put_double (broken_service (Invoke Prograde) ''closed'')) = []"
  using
    failure_terminates_unhandled
      [of "broken_service Connect ''refused''" "''refused''" put_double 1 2 3]
    failure_terminates_unhandled
      [of "broken_service (Invoke ActiveVessel) ''no vessel''" "''no vessel''" put_double 1 2 3]
    failure_terminates_unhandled
      [of "broken_service (Invoke Flight) ''rpc error''" "''rpc error''" put_double 1 2 3]
    failure_terminates_unhandled
      [of "broken_service (Invoke Prograde) ''closed''" "''closed''" put_double 1 2 3]
  by (simp add: broken_service_def stdout_of_def)

subsection \<open>Exit status\<close>

text \<open>
  Claim C4. When the connection is made and the calls that fetch the vector return,
  \<open>main\<close> runs to its end and returns 0, which is the exit status of the process.
\<close>

theorem success_exits_zero:
  assumes "connect svc = Returns conn"
    and "active_vessel svc (SpaceCenter conn) = Returns vs"
    and "flight svc vs = Returns fl"
    and "prograde svc fl = Returns v"
  shows "outcome (main_prog put svc) = Returned 0"
proof -
  obtain x y z where "v = (x, y, z)" by (cases v) auto
  with assms run_success [of svc conn vs fl x y z put] show ?thesis by simp
qed

theorem success_exits_zero_witness:
  "outcome (main_prog put_double (strict_service (0x3FF0000000000000, 0, 0))) = Returned 0"
  using success_exits_zero
    [of "strict_service (0x3FF0000000000000, 0, 0)" 1 2 3 "(0x3FF0000000000000, 0, 0)" put_double]
  by (simp add: strict_service_def)

subsection \<open>Order of effects\<close>

text \<open>
  Claim C5. Every run is an initial part of one fixed sequence: the connection is opened,
  then the requests are issued, then the text is written and flushed. No request
  precedes the opening of the connection and no output precedes a request (the phases of
  the events never decrease). A run either stops at one of the four calls, having written
  nothing, or it has got the vector back from the last request and then writes it;
  nothing else occurs in a run.
\<close>

theorem linear_sequence:
  "sorted (map phase (events (main_prog put svc))) \<and>
   (events (main_prog put svc) \<in>
      {[Connect],
       [Connect, Invoke ActiveVessel],
       [Connect, Invoke ActiveVessel, Invoke Flight],
       [Connect, Invoke ActiveVessel, Invoke Flight, Invoke Prograde]} \<and>
    stdout_of (main_prog put svc) = [] \<or>
    (\<exists>conn vs fl x y z.
       connect svc = Returns conn \<and> active_vessel svc (SpaceCenter conn) = Returns vs \<and>
       flight svc vs = Returns fl \<and> prograde svc fl = Returns (x, y, z) \<and>
       events (main_prog put svc) =
         [Connect, Invoke ActiveVessel, Invoke Flight, Invoke Prograde,
          Put (put x), Put '' '', Put (put y), Put '' '', Put (put z),
          Put [CHR 0x0A], Flush]))"
proof (cases rule: main_prog_cases [of svc put])
  case (success c vs fl x y z)
  then show ?thesis by auto
qed (simp_all add: stdout_of_def)

subsection \<open>Precision of the output\<close>

text \<open>
  Claim C6. With the default formatting of \<open>std::cout\<close>, six significant digits, the
  printed text does not determine the vector: there are two different vectors of finite
  doubles for which the program prints the same bytes. (The vectors of the proof are
  \<open>(1, 0, 0)\<close> and \<open>(1 + 1/2^52, 0, 0)\<close>; both are printed as \<open>1 0 0\<close>.)
\<close>

theorem default_format_not_injective:
  "\<exists>u v. u \<noteq> v \<and>
     list_all finite_double [get0 u, get1 u, get2 u] \<and>
     list_all finite_double [get0 v, get1 v, get2 v] \<and>
     stdout_of (main_prog put_double (steady_service u)) =
     stdout_of (main_prog put_double (steady_service v))"
proof (intro exI conjI)
  let ?u = "(0x3FF0000000000000, 0, 0) :: vector3"
  let ?v = "(0x3FF0000000000001, 0, 0) :: vector3"
  show "?u \<noteq> ?v" by simp
  show "list_all finite_double [get0 ?u, get1 ?u, get2 ?u]"
    by (simp add: get0_def get1_def get2_def finite_double_def biased_exp_def)
  show "list_all finite_double [get0 ?v, get1 ?v, get2 ?v]"
    by (simp add: get0_def get1_def get2_def finite_double_def biased_exp_def)
  have "main_prog put_double (steady_service ?u) = main_prog put_double (steady_service ?v)"
    using run_success [of "steady_service ?u" 1 2 3 "0x3FF0000000000000" 0 0 put_double]
      run_success [of "steady_service ?v" 1 2 3 "0x3FF0000000000001" 0 0 put_double]
    by (simp add: steady_service_def put_double_one put_double_one_ulp)
  then show "stdout_of (main_prog put_double (steady_service ?u)) =
      stdout_of (main_prog put_double (steady_service ?v))"
    by simp
qed

subsection \<open>Determinism\<close>

text \<open>
  Claim C7. The run is a function of what the calls return. When two services give the
  same reply to every call the program makes (to \<open>connect\<close>, and to each later call on
  the handle the earlier reply returned), the two runs are the same run, and the text on
  standard output is byte for byte the same. How the services answer calls that the
  program does not make has no influence, and the program reads no other input.
\<close>

theorem output_determined_by_replies:
  assumes "connect svc = connect svc'"
    and "\<And>conn. connect svc = Returns conn \<Longrightarrow>
           active_vessel svc (SpaceCenter conn) = active_vessel svc' (SpaceCenter conn)"
    and "\<And>conn vs. connect svc = Returns conn \<Longrightarrow>
           active_vessel svc (SpaceCenter conn) = Returns vs \<Longrightarrow>
           flight svc vs = flight svc' vs"
    and "\<And>conn vs fl. connect svc = Returns conn \<Longrightarrow>
           active_vessel svc (SpaceCenter conn) = Returns vs \<Longrightarrow>
           flight svc vs = Returns fl \<Longrightarrow>
           prograde svc fl = prograde svc' fl"
  shows "main_prog put svc = main_prog put svc' \<and>
         stdout_of (main_prog put svc) = stdout_of (main_prog put svc')"
proof -
  have cn: "connect svc' = connect svc"
    using assms(1) by simp
  have av: "active_vessel svc' (SpaceCenter c) = active_vessel svc (SpaceCenter c)"
    if "connect svc = Returns c" for c
    using assms(2) [OF that] by simp
  have fl: "flight svc' vs = flight svc vs"
    if "connect svc = Returns c" "active_vessel svc (SpaceCenter c) = Returns vs" for c vs
    using assms(3) [OF that] by simp
  have pr: "prograde svc' fl = prograde svc fl"
    if "connect svc = Returns c" "active_vessel svc (SpaceCenter c) = Returns vs"
      "flight svc vs = Returns fl" for c vs fl
    using assms(4) [OF that] by simp
  have "main_prog put svc = main_prog put svc'"
  proof (cases rule: main_prog_cases [of svc put])
    case (connect_throws e)
    have r1: "connect svc' = Throws e"
      using cn connect_throws(1) by simp
    from run_connect_throws [OF r1, of put] connect_throws(2) show ?thesis by simp
  next
    case connect_blocks
    have r1: "connect svc' = Blocks"
      using cn connect_blocks(1) by simp
    from run_connect_blocks [OF r1, of put] connect_blocks(2) show ?thesis by simp
  next
    case (vessel_throws c e)
    have r1: "connect svc' = Returns c"
      using cn vessel_throws(1) by simp
    have r2: "active_vessel svc' (SpaceCenter c) = Throws e"
      using av [OF vessel_throws(1)] vessel_throws(2) by simp
    from run_vessel_throws [OF r1 r2, of put] vessel_throws(3) show ?thesis by simp
  next
    case (vessel_blocks c)
    have r1: "connect svc' = Returns c"
      using cn vessel_blocks(1) by simp
    have r2: "active_vessel svc' (SpaceCenter c) = Blocks"
      using av [OF vessel_blocks(1)] vessel_blocks(2) by simp
    from run_vessel_blocks [OF r1 r2, of put] vessel_blocks(3) show ?thesis by simp
  next
    case (flight_throws c vs e)
    have r1: "connect svc' = Returns c"
      using cn flight_throws(1) by simp
    have r2: "active_vessel svc' (SpaceCenter c) = Returns vs"
      using av [OF flight_throws(1)] flight_throws(2) by simp
    have r3: "flight svc' vs = Throws e"
      using fl [OF flight_throws(1,2)] flight_throws(3) by simp
    from run_flight_throws [OF r1 r2 r3, of put] flight_throws(4) show ?thesis by simp
  next
    case (flight_blocks c vs)
    have r1: "connect svc' = Returns c"
      using cn flight_blocks(1) by simp
    have r2: "active_vessel svc' (SpaceCenter c) = Returns vs"
      using av [OF flight_blocks(1)] flight_blocks(2) by simp
    have r3: "flight svc' vs = Blocks"
      using fl [OF flight_blocks(1,2)] flight_blocks(3) by simp
    from run_flight_blocks [OF r1 r2 r3, of put] flight_blocks(4) show ?thesis by simp
  next
    case (prograde_throws c vs fl e)
    have r1: "connect svc' = Returns c"
      using cn prograde_throws(1) by simp
    have r2: "active_vessel svc' (SpaceCenter c) = Returns vs"
      using av [OF prograde_throws(1)] prograde_throws(2) by simp
    have r3: "flight svc' vs = Returns fl"
      using fl [OF prograde_throws(1,2)] prograde_throws(3) by simp
    have r4: "prograde svc' fl = Throws e"
      using pr [OF prograde_throws(1,2,3)] prograde_throws(4) by simp
    from run_prograde_throws [OF r1 r2 r3 r4, of put] prograde_throws(5) show ?thesis by simp
  next
    case (prograde_blocks c vs fl)
    have r1: "connect svc' = Returns c"
      using cn prograde_blocks(1) by simp
    have r2: "active_vessel svc' (SpaceCenter c) = Returns vs"
      using av [OF prograde_blocks(1)] prograde_blocks(2) by simp
    have r3: "flight svc' vs = Returns fl"
      using fl [OF prograde_blocks(1,2)] prograde_blocks(3) by simp
    have r4: "prograde svc' fl = Blocks"
      using pr [OF prograde_blocks(1,2,3)] prograde_blocks(4) by simp
    from run_prograde_blocks [OF r1 r2 r3 r4, of put] prograde_blocks(5) show ?thesis by simp
  next
    case (success c vs fl x y z)
    have r1: "connect svc' = Returns c"
      using cn success(1) by simp
    have r2: "active_vessel svc' (SpaceCenter c) = Returns vs"
      using av [OF success(1)] success(2) by simp
    have r3: "flight svc' vs = Returns fl"
      using fl [OF success(1,2)] success(3) by simp
    have r4: "prograde svc' fl = Returns (x, y, z)"
      using pr [OF success(1,2,3)] success(4) by simp
    from run_success [OF r1 r2 r3 r4, of put] success(5) show ?thesis by simp
  qed
  then show ?thesis by simp
qed

theorem output_determined_by_replies_witness:
  "flight (steady_service (0x3FE0000000000000, 0, 0)) 7 \<noteq>
   flight (strict_service (0x3FE0000000000000, 0, 0)) 7 \<and>
   main_prog put_double (steady_service (0x3FE0000000000000, 0, 0)) =
   main_prog put_double (strict_service (0x3FE0000000000000, 0, 0)) \<and>
   stdout_of (main_prog put_double (steady_service (0x3FE0000000000000, 0, 0))) =
   stdout_of (main_prog put_double (strict_service (0x3FE0000000000000, 0, 0)))"
proof -
  let ?a = "steady_service (0x3FE0000000000000, 0, 0)"
  let ?b = "strict_service (0x3FE0000000000000, 0, 0)"
  have 1: "connect ?a = connect ?b"
    by (simp add: steady_service_def strict_service_def)
  have 2: "active_vessel ?a (SpaceCenter conn) = active_vessel ?b (SpaceCenter conn)"
    if "connect ?a = Returns conn" for conn
    using that by (simp add: steady_service_def strict_service_def)
  have 3: "flight ?a vs = flight ?b vs"
    if "connect ?a = Returns conn" "active_vessel ?a (SpaceCenter conn) = Returns vs"
    for conn vs
    using that by (simp add: steady_service_def strict_service_def)
  have 4: "prograde ?a fl = prograde ?b fl"
    if "connect ?a = Returns conn" "active_vessel ?a (SpaceCenter conn) = Returns vs"
      "flight ?a vs = Returns fl"
    for conn vs fl
    using that by (simp add: steady_service_def strict_service_def)
  have "flight ?a 7 \<noteq> flight ?b 7"
    by (simp add: steady_service_def strict_service_def)
  with output_determined_by_replies [of ?a ?b put_double, OF 1 2 3 4] show ?thesis
    by simp
qed

subsection \<open>Termination\<close>

text \<open>
  Claim C8. \<open>main\<close> has no loop and no recursion: a run consists of at most eleven
  effects. When \<open>connect\<close> and every call of the service come back (by returning or by
  throwing), the run ends: \<open>main\<close> returns or the process is terminated by the exception.
\<close>

theorem main_terminates:
  assumes "connect svc \<noteq> Blocks"
    and "\<forall>sc. active_vessel svc sc \<noteq> Blocks"
    and "\<forall>vs. flight svc vs \<noteq> Blocks"
    and "\<forall>fl. prograde svc fl \<noteq> Blocks"
  shows "outcome (main_prog put svc) \<noteq> Blocked \<and> length (events (main_prog put svc)) \<le> 11"
  using assms by (cases rule: main_prog_cases [of svc put]) simp_all

theorem main_terminates_witness:
  "outcome (main_prog put_double (steady_service (0, 0, 0))) \<noteq> Blocked \<and>
   length (events (main_prog put_double (steady_service (0, 0, 0)))) \<le> 11 \<and>
   outcome (main_prog put_double (broken_service (Invoke Flight) ''timeout'')) \<noteq> Blocked"
  using main_terminates [of "steady_service (0, 0, 0)" put_double]
    main_terminates [of "broken_service (Invoke Flight) ''timeout''" put_double]
  by (simp add: steady_service_def broken_service_def)

end
